theory Spec2Isabelle
  imports Main
begin

section \<open>Input types of the node configuration derivation\<close>

text \<open>
  The derivation engine is \<^verbatim>\<open>prepareNodeConfig\<close>. Its parameter object
  \<^verbatim>\<open>PrepareNodeConfigParams\<close> becomes a record. A JavaScript \<^verbatim>\<open>number\<close> that
  holds an identifier or a count is an \<open>int\<close>, a \<^verbatim>\<open>string\<close> is a \<open>string\<close>, and an
  optional property (\<^verbatim>\<open>name?: string\<close>) is a \<open>string option\<close>, \<open>None\<close> standing for
  \<^verbatim>\<open>undefined\<close>.
\<close>

text \<open>\<^verbatim>\<open>types/FallbackS3Config.ts\<close>: the toggle and the five optional storage fields.\<close>

record FallbackS3Config =
  enable :: bool
  accessKey :: "string option"
  bucket :: "string option"
  objectPrefix :: "string option"
  region :: "string option"
  secretKey :: "string option"

text \<open>
  \<^verbatim>\<open>ChainConfig\<close> and \<^verbatim>\<open>CoreContracts\<close> are declared in other modules of the SDK;
  the records carry the properties that \<^verbatim>\<open>prepareNodeConfig\<close> reads.
\<close>

record ChainConfigArbitrumParams =
  DataAvailabilityCommittee :: bool

record ChainConfig =
  chainId :: int
  arbitrum :: ChainConfigArbitrumParams

record CoreContracts =
  bridge :: string
  inbox :: string
  sequencerInbox :: string
  rollup :: string
  validatorUtils :: string
  validatorWalletCreator :: string
  deployedAtBlockNumber :: int

record PrepareNodeConfigParams =
  chainName :: string
  chainConfig :: ChainConfig
  coreContracts :: CoreContracts
  batchPosterPrivateKey :: string
  validatorPrivateKey :: string
  availAddressSeed :: string
  availAppId :: int
  fallbackS3Config :: FallbackS3Config
  parentChainId :: int
  parentChainRpcUrl :: string
  parentChainBeaconRpcUrl :: "string option"
  dasServerUrl :: "string option"

section \<open>The configuration document\<close>

text \<open>
  The document is the object literal that \<^verbatim>\<open>prepareNodeConfig\<close> builds, one record per
  nested object, a hyphen of a key written as an underscore. A key that the function adds
  only under a condition is an \<open>option\<close> field. Keys that occur in several objects
  (\<^verbatim>\<open>enable\<close>, \<^verbatim>\<open>sequencer\<close>, \<^verbatim>\<open>parent-chain-wallet\<close>) carry the name of their object
  as a prefix.
\<close>

text \<open>The element of the array that is serialised into \<^verbatim>\<open>chain.info-json\<close>.\<close>

record ChainInfoRollup =
  info_bridge :: string
  info_inbox :: string
  info_sequencer_inbox :: string
  info_rollup :: string
  info_validator_utils :: string
  info_validator_wallet_creator :: string
  info_deployed_at :: int

record ChainInfo =
  chain_id :: int
  parent_chain_id :: int
  parent_chain_is_arbitrum :: bool
  chain_name :: string
  chain_config :: ChainConfig
  info_rollup_block :: ChainInfoRollup

record 'j ChainSection =
  info_json :: 'j
  name_of_chain :: string

record Connection =
  url :: string

record BlobClient =
  beacon_url :: string

record ParentChainSection =
  connection :: Connection
  blob_client :: "BlobClient option"

record HttpSection =
  addr :: string
  port :: int
  vhosts :: "string list"
  corsdomain :: "string list"
  api :: "string list"

record DelayedSequencer =
  delayed_sequencer_enable :: bool
  use_merge_finality :: bool
  finalize_distance :: int

record ParentChainWallet =
  private_key :: string

record BatchPoster =
  max_size :: int
  batch_poster_enable :: bool
  batch_poster_parent_chain_wallet :: ParentChainWallet

record Staker =
  staker_enable :: bool
  strategy :: string
  staker_parent_chain_wallet :: ParentChainWallet

record Dangerous =
  no_sequencer_coordinator :: bool
  disable_blob_reader :: bool

record FallbackS3ServiceConfig =
  fallback_enable :: bool
  access_key :: "string option"
  fallback_bucket :: "string option"
  object_prefix :: "string option"
  fallback_region :: "string option"
  secret_key :: "string option"
  discard_after_timeout :: "bool option"

record AvailBridgeConfig =
  avail_bridge_api_url :: string
  vectorx_address :: string
  arbsepolia_rpc :: string

record Avail =
  avail_enable :: bool
  seed :: string
  avail_api_url :: string
  app_id :: int
  timeout :: string
  fallback_s3_service_config :: FallbackS3ServiceConfig
  avail_bridge_config :: AvailBridgeConfig

record RestAggregator =
  rest_aggregator_enable :: bool
  urls :: "string list"

record RpcAggregator =
  rpc_aggregator_enable :: bool
  assumed_honest :: int

record DataAvailability =
  data_availability_enable :: bool
  sequencer_inbox_address :: string
  parent_chain_node_url :: string
  rest_aggregator :: RestAggregator
  rpc_aggregator :: RpcAggregator

record NodeSection =
  node_sequencer :: bool
  delayed_sequencer :: DelayedSequencer
  batch_poster :: BatchPoster
  staker :: Staker
  dangerous :: Dangerous
  avail :: Avail
  data_availability :: "DataAvailability option"

record ExecutionSequencer =
  execution_sequencer_enable :: bool
  max_tx_data_size :: int
  max_block_speed :: string

record Caching =
  archive :: bool

record ExecutionSection =
  forwarding_target :: string
  execution_sequencer :: ExecutionSequencer
  caching :: Caching

record 'j NodeConfig =
  chain_section :: "'j ChainSection"
  parent_chain :: ParentChainSection
  http :: HttpSection
  node :: NodeSection
  execution :: ExecutionSection

section \<open>Collaborators and errors\<close>

text \<open>
  \<^verbatim>\<open>getParentChainLayer\<close>, \<^verbatim>\<open>parentChainIsArbitrum\<close> and \<^verbatim>\<open>validateParentChain\<close> are
  imported by \<^verbatim>\<open>prepareNodeConfig\<close> from other modules of the SDK, and
  \<^verbatim>\<open>JSON.stringify\<close> belongs to the language. They are parameters of the model:
  \<^item> \<open>getParentChainLayer\<close> gives the layer number of a parent chain id;
  \<^item> \<open>parentChainIsArbitrum\<close> tells whether the parent chain is an Arbitrum chain;
  \<^item> \<open>validateParentChain\<close> gives back the validated id, or \<open>None\<close> when it throws;
  \<^item> \<open>JSON_stringify\<close> serialises the chain info array; \<open>'j\<close> is the type of the
    serialised value (\<open>string\<close> for the language's own serialiser).
\<close>

record 'j Collaborators =
  getParentChainLayer :: "int \<Rightarrow> int"
  parentChainIsArbitrum :: "int \<Rightarrow> bool"
  validateParentChain :: "int \<Rightarrow> int option"
  JSON_stringify :: "ChainInfo list \<Rightarrow> 'j"

text \<open>
  \<open>MissingRequiredField f\<close> is the \<^verbatim>\<open>Error\<close> thrown by \<^verbatim>\<open>prepareNodeConfig\<close> itself,
  whose message says that the parameter \<open>f\<close> is required. \<open>ParentChainRejected\<close> stands
  for an exception that leaves \<^verbatim>\<open>validateParentChain\<close>.
\<close>

datatype error = MissingRequiredField string | ParentChainRejected int

section \<open>Helpers of the language\<close>

text \<open>
  The truth value of an optional string in a condition (\<^verbatim>\<open>if (s)\<close>, \<^verbatim>\<open>!s\<close>):
  \<^verbatim>\<open>undefined\<close> and the empty string are falsy, every other string is truthy.
\<close>

definition truthy :: "string option \<Rightarrow> bool" where
  "truthy s = (case s of None \<Rightarrow> False | Some u \<Rightarrow> u \<noteq> [])"

text \<open>\<^verbatim>\<open>s.startsWith(t)\<close>.\<close>

definition startsWith :: "string \<Rightarrow> string \<Rightarrow> bool" where
  "startsWith s t = (take (length t) s = t)"

text \<open>\<^verbatim>\<open>s.slice(n)\<close> for a start index \<open>n\<close> that is not negative.\<close>

definition slice :: "string \<Rightarrow> nat \<Rightarrow> string" where
  "slice s n = drop n s"

text \<open>\<^verbatim>\<open>a ?? b\<close>: the right operand replaces \<^verbatim>\<open>undefined\<close> only.\<close>

definition nullish :: "string option \<Rightarrow> string \<Rightarrow> string" where
  "nullish a b = (case a of None \<Rightarrow> b | Some u \<Rightarrow> u)"

section \<open>The derivation\<close>

definition sanitizePrivateKey :: "string \<Rightarrow> string" where
  "sanitizePrivateKey privateKey =
     (if startsWith privateKey ''0x'' then slice privateKey 2 else privateKey)"

definition stringifyInfoJson :: "'j Collaborators \<Rightarrow> ChainInfo list \<Rightarrow> 'j" where
  "stringifyInfoJson env infoJson = JSON_stringify env infoJson"

definition getDisableBlobReader :: "'j Collaborators \<Rightarrow> int \<Rightarrow> bool" where
  "getDisableBlobReader env pid =
     (if getParentChainLayer env pid \<noteq> 1 \<and> \<not> parentChainIsArbitrum env pid
      then True else False)"

text \<open>
  The object literal assigned to \<^verbatim>\<open>config\<close>; \<open>validated\<close> is the value returned by
  \<^verbatim>\<open>validateParentChain(parentChainId)\<close>.
\<close>

definition initialConfig ::
  "'j Collaborators \<Rightarrow> PrepareNodeConfigParams \<Rightarrow> int \<Rightarrow> 'j NodeConfig" where
  "initialConfig env p validated =
     \<lparr> chain_section =
         \<lparr> info_json = stringifyInfoJson env
             [\<lparr> chain_id = chainId (chainConfig p),
                parent_chain_id = parentChainId p,
                parent_chain_is_arbitrum = parentChainIsArbitrum env validated,
                chain_name = chainName p,
                chain_config = chainConfig p,
                info_rollup_block =
                  \<lparr> info_bridge = bridge (coreContracts p),
                    info_inbox = inbox (coreContracts p),
                    info_sequencer_inbox = sequencerInbox (coreContracts p),
                    info_rollup = rollup (coreContracts p),
                    info_validator_utils = validatorUtils (coreContracts p),
                    info_validator_wallet_creator = validatorWalletCreator (coreContracts p),
                    info_deployed_at = deployedAtBlockNumber (coreContracts p) \<rparr> \<rparr>],
           name_of_chain = chainName p \<rparr>,
       parent_chain =
         \<lparr> connection = \<lparr> url = parentChainRpcUrl p \<rparr>,
           blob_client = None \<rparr>,
       http =
         \<lparr> addr = ''0.0.0.0'',
           port = 8449,
           vhosts = [''*''],
           corsdomain = [''*''],
           api = [''eth'', ''net'', ''web3'', ''arb'', ''debug''] \<rparr>,
       node =
         \<lparr> node_sequencer = True,
           delayed_sequencer =
             \<lparr> delayed_sequencer_enable = True,
               use_merge_finality = False,
               finalize_distance = 1 \<rparr>,
           batch_poster =
             \<lparr> max_size = 90000,
               batch_poster_enable = True,
               batch_poster_parent_chain_wallet =
                 \<lparr> private_key = sanitizePrivateKey (batchPosterPrivateKey p) \<rparr> \<rparr>,
           staker =
             \<lparr> staker_enable = True,
               strategy = ''MakeNodes'',
               staker_parent_chain_wallet =
                 \<lparr> private_key = sanitizePrivateKey (validatorPrivateKey p) \<rparr> \<rparr>,
           dangerous =
             \<lparr> no_sequencer_coordinator = True,
               disable_blob_reader = getDisableBlobReader env (parentChainId p) \<rparr>,
           avail =
             \<lparr> avail_enable = True,
               seed = availAddressSeed p,
               avail_api_url = ''wss://turing-rpc.avail.so/ws'',
               app_id = availAppId p,
               timeout = ''100s'',
               fallback_s3_service_config =
                 \<lparr> fallback_enable = False,
                   access_key = None,
                   fallback_bucket = None,
                   object_prefix = None,
                   fallback_region = None,
                   secret_key = None,
                   discard_after_timeout = None \<rparr>,
               avail_bridge_config =
                 \<lparr> avail_bridge_api_url = ''https://turing-bridge-api.fra.avail.so/'',
                   vectorx_address = ''0xA712dfec48AF3a78419A8FF90fE8f97Ae74680F0'',
                   arbsepolia_rpc = ''wss://sepolia-rollup.arbitrum.io/rpc'' \<rparr> \<rparr>,
           data_availability = None \<rparr>,
       execution =
         \<lparr> forwarding_target = '''',
           execution_sequencer =
             \<lparr> execution_sequencer_enable = True,
               max_tx_data_size = 85000,
               max_block_speed = ''250ms'' \<rparr>,
           caching = \<lparr> archive = True \<rparr> \<rparr> \<rparr>"

text \<open>
  \<^verbatim>\<open>if (parentChainBeaconRpcUrl) { config['parent-chain']['blob-client'] = ... }\<close>
\<close>

definition setBlobClient :: "PrepareNodeConfigParams \<Rightarrow> 'j NodeConfig \<Rightarrow> 'j NodeConfig" where
  "setBlobClient p config =
     (case parentChainBeaconRpcUrl p of
        None \<Rightarrow> config
      | Some u \<Rightarrow>
          if truthy (Some u)
          then config\<lparr> parent_chain :=
                 (parent_chain config)\<lparr> blob_client := Some \<lparr> beacon_url = u \<rparr> \<rparr> \<rparr>
          else config)"

text \<open>
  \<^verbatim>\<open>if (chainConfig.arbitrum.DataAvailabilityCommittee) { config.node['data-availability'] = ... }\<close>,
  with \<^verbatim>\<open>dasServerUrlWithFallback\<close> computed before the test.
\<close>

definition setDataAvailability ::
  "PrepareNodeConfigParams \<Rightarrow> 'j NodeConfig \<Rightarrow> 'j NodeConfig" where
  "setDataAvailability p config =
     (let dasServerUrlWithFallback = nullish (dasServerUrl p) ''http://localhost''
      in if DataAvailabilityCommittee (arbitrum (chainConfig p))
         then config\<lparr> node := (node config)\<lparr> data_availability := Some
                \<lparr> data_availability_enable = True,
                  sequencer_inbox_address = sequencerInbox (coreContracts p),
                  parent_chain_node_url = parentChainRpcUrl p,
                  rest_aggregator =
                    \<lparr> rest_aggregator_enable = True,
                      urls = [dasServerUrlWithFallback @ '':9877''] \<rparr>,
                  rpc_aggregator =
                    \<lparr> rpc_aggregator_enable = True,
                      assumed_honest = 1 \<rparr> \<rparr> \<rparr> \<rparr>
         else config)"

text \<open>
  \<^verbatim>\<open>if (fallbackS3Config.enable) { config.node.avail['fallback-s3-service-config'] = ... }\<close>
\<close>

definition setFallbackS3 :: "PrepareNodeConfigParams \<Rightarrow> 'j NodeConfig \<Rightarrow> 'j NodeConfig" where
  "setFallbackS3 p config =
     (if enable (fallbackS3Config p)
      then config\<lparr> node := (node config)\<lparr> avail := (avail (node config))
             \<lparr> fallback_s3_service_config :=
                 \<lparr> fallback_enable = True,
                   access_key = accessKey (fallbackS3Config p),
                   fallback_bucket = bucket (fallbackS3Config p),
                   object_prefix = objectPrefix (fallbackS3Config p),
                   fallback_region = region (fallbackS3Config p),
                   secret_key = secretKey (fallbackS3Config p),
                   discard_after_timeout = Some False \<rparr> \<rparr> \<rparr> \<rparr>
      else config)"

text \<open>
  \<^verbatim>\<open>prepareNodeConfig\<close>: the beacon check throws first; then the object literal is
  evaluated, which calls \<^verbatim>\<open>validateParentChain\<close>; then the three conditional
  assignments run in the order of the source.
\<close>

definition prepareNodeConfig ::
  "'j Collaborators \<Rightarrow> PrepareNodeConfigParams \<Rightarrow> error + 'j NodeConfig" where
  "prepareNodeConfig env p =
     (if getParentChainLayer env (parentChainId p) = 1 \<and> \<not> truthy (parentChainBeaconRpcUrl p)
      then Inl (MissingRequiredField ''parentChainBeaconRpcUrl'')
      else case validateParentChain env (parentChainId p) of
             None \<Rightarrow> Inl (ParentChainRejected (parentChainId p))
           | Some validated \<Rightarrow>
               Inr (setFallbackS3 p (setDataAvailability p (setBlobClient p
                     (initialConfig env p validated)))))"

section \<open>Concrete collaborators and inputs\<close>

text \<open>
  An instance of the collaborators for evaluating the derivation at concrete inputs:
  chain 1 (Ethereum) and chain 11155111 (Sepolia) are layer 1; chains 42161 (Arbitrum One)
  and 421614 (Arbitrum Sepolia, the parent chain of the deployment script) are layer 2
  Arbitrum chains; chain 8453 (Base) is a layer 2 chain that is not an Arbitrum chain.
  Any other id is rejected by \<open>validateParentChain\<close>. The serialiser is the identity, so
  that the chain info array can be read back from the document.
\<close>

definition exampleCollaborators :: "(ChainInfo list) Collaborators" where
  "exampleCollaborators =
     \<lparr> getParentChainLayer = (\<lambda>pid. if pid = 1 \<or> pid = 11155111 then 1 else 2),
       parentChainIsArbitrum = (\<lambda>pid. pid = 42161 \<or> pid = 421614),
       validateParentChain =
         (\<lambda>pid. if pid = 1 \<or> pid = 11155111 \<or> pid = 42161 \<or> pid = 421614 \<or> pid = 8453
                then Some pid else None),
       JSON_stringify = (\<lambda>infoJson. infoJson) \<rparr>"

text \<open>
  The parameters of the deployment script: Arbitrum Sepolia as the parent chain, no beacon
  endpoint, no data availability server, committee and fallback storage disabled.
\<close>

definition exampleParams :: PrepareNodeConfigParams where
  "exampleParams =
     \<lparr> chainName = ''My Orbit Chain'',
       chainConfig =
         \<lparr> chainId = 97400766948,
           arbitrum = \<lparr> DataAvailabilityCommittee = False \<rparr> \<rparr>,
       coreContracts =
         \<lparr> bridge = ''0xb1'',
           inbox = ''0xb2'',
           sequencerInbox = ''0xb3'',
           rollup = ''0xb4'',
           validatorUtils = ''0xb5'',
           validatorWalletCreator = ''0xb6'',
           deployedAtBlockNumber = 1200 \<rparr>,
       batchPosterPrivateKey = ''0xabc1'',
       validatorPrivateKey = ''def2'',
       availAddressSeed = ''seed words'',
       availAppId = 7,
       fallbackS3Config =
         \<lparr> enable = False,
           accessKey = None,
           bucket = None,
           objectPrefix = None,
           region = None,
           secretKey = None \<rparr>,
       parentChainId = 421614,
       parentChainRpcUrl = ''https://sepolia-rollup.arbitrum.io/rpc'',
       parentChainBeaconRpcUrl = None,
       dasServerUrl = None \<rparr>"

section \<open>Auxiliary facts\<close>

text \<open>A successful derivation is the initial document after the three assignments.\<close>

lemma prepareNodeConfig_Inr:
  assumes "prepareNodeConfig env p = Inr config"
  obtains validated where
    "validateParentChain env (parentChainId p) = Some validated"
    "config = setFallbackS3 p (setDataAvailability p (setBlobClient p
                (initialConfig env p validated)))"
    "\<not> (getParentChainLayer env (parentChainId p) = 1 \<and> \<not> truthy (parentChainBeaconRpcUrl p))"
  using assms unfolding prepareNodeConfig_def
  by (auto split: if_splits option.splits)

lemma truthy_iff: "truthy s \<longleftrightarrow> (\<exists>u. s = Some u \<and> u \<noteq> [])"
  by (cases s) (simp_all add: truthy_def)

lemma exampleCollaborators_simps:
  "getParentChainLayer exampleCollaborators pid = (if pid = 1 \<or> pid = 11155111 then 1 else 2)"
  "parentChainIsArbitrum exampleCollaborators pid = (pid = 42161 \<or> pid = 421614)"
  "validateParentChain exampleCollaborators pid =
     (if pid = 1 \<or> pid = 11155111 \<or> pid = 42161 \<or> pid = 421614 \<or> pid = 8453
      then Some pid else None)"
  "JSON_stringify exampleCollaborators infoJson = infoJson"
  by (simp_all add: exampleCollaborators_def)

text \<open>What the three assignments leave as it is.\<close>

lemma setBlobClient_node: "node (setBlobClient p c) = node c"
  by (simp add: setBlobClient_def split: option.splits)

lemma setBlobClient_chain_section: "chain_section (setBlobClient p c) = chain_section c"
  by (simp add: setBlobClient_def split: option.splits)

lemma setDataAvailability_parent_chain: "parent_chain (setDataAvailability p c) = parent_chain c"
  by (simp add: setDataAvailability_def Let_def)

lemma setDataAvailability_chain_section:
  "chain_section (setDataAvailability p c) = chain_section c"
  by (simp add: setDataAvailability_def Let_def)

lemma setDataAvailability_node_fields:
  "dangerous (node (setDataAvailability p c)) = dangerous (node c)"
  "batch_poster (node (setDataAvailability p c)) = batch_poster (node c)"
  "staker (node (setDataAvailability p c)) = staker (node c)"
  "avail (node (setDataAvailability p c)) = avail (node c)"
  by (simp_all add: setDataAvailability_def Let_def)

lemma setFallbackS3_parent_chain: "parent_chain (setFallbackS3 p c) = parent_chain c"
  by (simp add: setFallbackS3_def)

lemma setFallbackS3_chain_section: "chain_section (setFallbackS3 p c) = chain_section c"
  by (simp add: setFallbackS3_def)

lemma setFallbackS3_node_fields:
  "dangerous (node (setFallbackS3 p c)) = dangerous (node c)"
  "batch_poster (node (setFallbackS3 p c)) = batch_poster (node c)"
  "staker (node (setFallbackS3 p c)) = staker (node c)"
  "data_availability (node (setFallbackS3 p c)) = data_availability (node c)"
  by (simp_all add: setFallbackS3_def)

text \<open>The three conditional sub-blocks of a derived document, as functions of the input.\<close>

lemma blob_client_setBlobClient:
  "blob_client (parent_chain (setBlobClient p c)) =
     (case parentChainBeaconRpcUrl p of
        None \<Rightarrow> blob_client (parent_chain c)
      | Some u \<Rightarrow> if u = [] then blob_client (parent_chain c) else Some \<lparr> beacon_url = u \<rparr>)"
  by (simp add: setBlobClient_def truthy_def split: option.splits)

lemma blob_client_prepareNodeConfig:
  assumes "prepareNodeConfig env p = Inr config"
  shows "blob_client (parent_chain config) =
     (case parentChainBeaconRpcUrl p of
        None \<Rightarrow> None
      | Some u \<Rightarrow> if u = [] then None else Some \<lparr> beacon_url = u \<rparr>)"
proof -
  from assms obtain validated where
    c: "config = setFallbackS3 p (setDataAvailability p (setBlobClient p
                (initialConfig env p validated)))"
    by (rule prepareNodeConfig_Inr)
  have "blob_client (parent_chain (initialConfig env p validated)) = None"
    by (simp add: initialConfig_def)
  then show ?thesis
    unfolding c
    by (simp only: setFallbackS3_parent_chain setDataAvailability_parent_chain
        blob_client_setBlobClient)
qed

lemma data_availability_prepareNodeConfig:
  assumes "prepareNodeConfig env p = Inr config"
  shows "data_availability (node config) =
     (if DataAvailabilityCommittee (arbitrum (chainConfig p))
      then Some \<lparr> data_availability_enable = True,
                  sequencer_inbox_address = sequencerInbox (coreContracts p),
                  parent_chain_node_url = parentChainRpcUrl p,
                  rest_aggregator =
                    \<lparr> rest_aggregator_enable = True,
                      urls = [nullish (dasServerUrl p) ''http://localhost'' @ '':9877''] \<rparr>,
                  rpc_aggregator =
                    \<lparr> rpc_aggregator_enable = True, assumed_honest = 1 \<rparr> \<rparr>
      else None)"
proof -
  from assms obtain validated where
    c: "config = setFallbackS3 p (setDataAvailability p (setBlobClient p
                (initialConfig env p validated)))"
    by (rule prepareNodeConfig_Inr)
  have "data_availability (node (initialConfig env p validated)) = None"
    by (simp add: initialConfig_def)
  then show ?thesis
    unfolding c
    by (simp add: setFallbackS3_node_fields setDataAvailability_def Let_def setBlobClient_node)
qed

lemma fallback_prepareNodeConfig:
  assumes "prepareNodeConfig env p = Inr config"
  shows "fallback_s3_service_config (avail (node config)) =
     (if enable (fallbackS3Config p)
      then \<lparr> fallback_enable = True,
             access_key = accessKey (fallbackS3Config p),
             fallback_bucket = bucket (fallbackS3Config p),
             object_prefix = objectPrefix (fallbackS3Config p),
             fallback_region = region (fallbackS3Config p),
             secret_key = secretKey (fallbackS3Config p),
             discard_after_timeout = Some False \<rparr>
      else \<lparr> fallback_enable = False,
             access_key = None,
             fallback_bucket = None,
             object_prefix = None,
             fallback_region = None,
             secret_key = None,
             discard_after_timeout = None \<rparr>)"
proof -
  from assms obtain validated where
    c: "config = setFallbackS3 p (setDataAvailability p (setBlobClient p
                (initialConfig env p validated)))"
    by (rule prepareNodeConfig_Inr)
  have "fallback_s3_service_config (avail (node (initialConfig env p validated))) =
      \<lparr> fallback_enable = False, access_key = None, fallback_bucket = None,
        object_prefix = None, fallback_region = None, secret_key = None,
        discard_after_timeout = None \<rparr>"
    by (simp add: initialConfig_def)
  then show ?thesis
    unfolding c
    by (simp add: setFallbackS3_def setDataAvailability_node_fields setBlobClient_node)
qed

text \<open>The wallets of a derived document hold the sanitised keys.\<close>

lemma wallets_prepareNodeConfig:
  assumes "prepareNodeConfig env p = Inr config"
  shows "private_key (batch_poster_parent_chain_wallet (batch_poster (node config)))
           = sanitizePrivateKey (batchPosterPrivateKey p)"
    and "private_key (staker_parent_chain_wallet (staker (node config)))
           = sanitizePrivateKey (validatorPrivateKey p)"
proof -
  from assms obtain validated where
    c: "config = setFallbackS3 p (setDataAvailability p (setBlobClient p
                (initialConfig env p validated)))"
    by (rule prepareNodeConfig_Inr)
  have "batch_poster (node config) = batch_poster (node (initialConfig env p validated))"
    and "staker (node config) = staker (node (initialConfig env p validated))"
    unfolding c
    by (simp_all only: setFallbackS3_node_fields setDataAvailability_node_fields
        setBlobClient_node)
  then show "private_key (batch_poster_parent_chain_wallet (batch_poster (node config)))
           = sanitizePrivateKey (batchPosterPrivateKey p)"
    and "private_key (staker_parent_chain_wallet (staker (node config)))
           = sanitizePrivateKey (validatorPrivateKey p)"
    by (simp_all add: initialConfig_def)
qed

text \<open>\<^verbatim>\<open>startsWith\<close> holds exactly of the strings that continue the prefix.\<close>

lemma startsWith_iff: "startsWith s t \<longleftrightarrow> (\<exists>rest. s = t @ rest)"
proof
  assume "startsWith s t"
  then have "s = t @ drop (length t) s"
    unfolding startsWith_def by (metis append_take_drop_id)
  then show "\<exists>rest. s = t @ rest" ..
next
  assume "\<exists>rest. s = t @ rest"
  then show "startsWith s t"
    unfolding startsWith_def by auto
qed

lemma sanitizePrivateKey_prefixed: "sanitizePrivateKey (''0x'' @ rest) = rest"
  by (simp add: sanitizePrivateKey_def startsWith_def slice_def)

lemma sanitizePrivateKey_other:
  "(\<nexists>rest. privateKey = ''0x'' @ rest) \<Longrightarrow> sanitizePrivateKey privateKey = privateKey"
  unfolding sanitizePrivateKey_def startsWith_iff by simp

section \<open>The beacon endpoint check\<close>

text \<open>
  With a layer 1 parent chain and the empty string as \<^verbatim>\<open>parentChainBeaconRpcUrl\<close> the
  derivation throws, although an endpoint was supplied: \<^verbatim>\<open>!parentChainBeaconRpcUrl\<close>
  holds of the empty string as it does of \<^verbatim>\<open>undefined\<close>.
\<close>

theorem prepareNodeConfig_empty_beacon_url_layer1:
  "getParentChainLayer exampleCollaborators
     (parentChainId (exampleParams\<lparr> parentChainId := 1, parentChainBeaconRpcUrl := Some '''' \<rparr>))
     = 1
   \<and> parentChainBeaconRpcUrl
       (exampleParams\<lparr> parentChainId := 1, parentChainBeaconRpcUrl := Some '''' \<rparr>) = Some ''''
   \<and> prepareNodeConfig exampleCollaborators
       (exampleParams\<lparr> parentChainId := 1, parentChainBeaconRpcUrl := Some '''' \<rparr>)
     = Inl (MissingRequiredField ''parentChainBeaconRpcUrl'')"
  by (simp add: prepareNodeConfig_def exampleCollaborators_simps truthy_def)

text \<open>
  C1 (amended). The derivation fails with \<open>MissingRequiredField\<close> for the beacon URL if and
  only if the parent chain is classified as layer 1 and \<^verbatim>\<open>parentChainBeaconRpcUrl\<close> is
  absent or the empty string. On every other input whose parent chain id is accepted by
  \<^verbatim>\<open>validateParentChain\<close> (as every value of the declared type \<^verbatim>\<open>ParentChainId\<close> is) the
  derivation succeeds and returns a configuration document.
\<close>

theorem prepareNodeConfig_error_iff:
  "(prepareNodeConfig env p = Inl (MissingRequiredField ''parentChainBeaconRpcUrl'')
      \<longleftrightarrow> getParentChainLayer env (parentChainId p) = 1
          \<and> (parentChainBeaconRpcUrl p = None \<or> parentChainBeaconRpcUrl p = Some ''''))
   \<and> (validateParentChain env (parentChainId p) \<noteq> None
        \<longrightarrow> \<not> (getParentChainLayer env (parentChainId p) = 1
               \<and> (parentChainBeaconRpcUrl p = None \<or> parentChainBeaconRpcUrl p = Some ''''))
        \<longrightarrow> (\<exists>config. prepareNodeConfig env p = Inr config))"
  by (cases "parentChainBeaconRpcUrl p")
    (auto simp add: prepareNodeConfig_def truthy_def split: option.splits)

text \<open>
  Layer 1 without an endpoint fails; layer 1 with an endpoint and layer 2 without one
  succeed.
\<close>

theorem prepareNodeConfig_error_iff_witness:
  "prepareNodeConfig exampleCollaborators (exampleParams\<lparr> parentChainId := 1 \<rparr>)
     = Inl (MissingRequiredField ''parentChainBeaconRpcUrl'')
   \<and> (\<exists>config. prepareNodeConfig exampleCollaborators
         (exampleParams\<lparr> parentChainId := 1,
            parentChainBeaconRpcUrl := Some ''https://beacon.example'' \<rparr>) = Inr config)
   \<and> (\<exists>config. prepareNodeConfig exampleCollaborators exampleParams = Inr config)"
  using prepareNodeConfig_error_iff [of exampleCollaborators "exampleParams\<lparr> parentChainId := 1 \<rparr>"]
    prepareNodeConfig_error_iff [of exampleCollaborators "exampleParams\<lparr> parentChainId := 1,
            parentChainBeaconRpcUrl := Some ''https://beacon.example'' \<rparr>"]
    prepareNodeConfig_error_iff [of exampleCollaborators exampleParams]
  by (simp add: exampleCollaborators_simps exampleParams_def)

section \<open>The blob client sub-block\<close>

text \<open>
  A layer 2 parent chain with a beacon endpoint: the derivation succeeds and the document
  has the \<^verbatim>\<open>blob-client\<close> sub-block, since the assignment tests the endpoint and not the
  layer. (\<open>map_sum id f\<close> applies \<open>f\<close> to the document of a successful derivation.)
\<close>

theorem blob_client_present_on_layer2:
  "getParentChainLayer exampleCollaborators
     (parentChainId (exampleParams\<lparr> parentChainBeaconRpcUrl := Some ''https://beacon.example'' \<rparr>))
     = 2
   \<and> map_sum id (blob_client \<circ> parent_chain)
       (prepareNodeConfig exampleCollaborators
          (exampleParams\<lparr> parentChainBeaconRpcUrl := Some ''https://beacon.example'' \<rparr>))
     = Inr (Some \<lparr> beacon_url = ''https://beacon.example'' \<rparr>)"
proof -
  let ?p = "exampleParams\<lparr> parentChainBeaconRpcUrl := Some ''https://beacon.example'' \<rparr>"
  obtain config where h: "prepareNodeConfig exampleCollaborators ?p = Inr config"
    by (simp add: prepareNodeConfig_def exampleCollaborators_simps exampleParams_def truthy_def)
  have "blob_client (parent_chain config) = Some \<lparr> beacon_url = ''https://beacon.example'' \<rparr>"
    by (simp add: blob_client_prepareNodeConfig [OF h])
  with h show ?thesis
    by (simp add: exampleCollaborators_simps exampleParams_def)
qed

text \<open>
  C2 (amended). On every input on which the derivation succeeds: if the parent chain is
  classified as layer 1, the \<^verbatim>\<open>blob-client\<close> sub-block of the parent chain section is
  present; if it is not layer 1, the sub-block is present exactly when a
  \<^verbatim>\<open>parentChainBeaconRpcUrl\<close> other than the empty string was supplied.
\<close>

theorem blob_client_layer:
  assumes "prepareNodeConfig env p = Inr config"
  shows "(getParentChainLayer env (parentChainId p) = 1 \<longrightarrow>
            blob_client (parent_chain config) \<noteq> None)
       \<and> (getParentChainLayer env (parentChainId p) \<noteq> 1 \<longrightarrow>
            (blob_client (parent_chain config) \<noteq> None
               \<longleftrightarrow> (\<exists>u. parentChainBeaconRpcUrl p = Some u \<and> u \<noteq> '''')))"
proof -
  from assms have
    "\<not> (getParentChainLayer env (parentChainId p) = 1 \<and> \<not> truthy (parentChainBeaconRpcUrl p))"
    by (rule prepareNodeConfig_Inr)
  then show ?thesis
    by (auto simp add: blob_client_prepareNodeConfig [OF assms] truthy_iff split: option.splits)
qed

theorem blob_client_layer_witness:
  "\<exists>config. prepareNodeConfig exampleCollaborators
       (exampleParams\<lparr> parentChainId := 1,
          parentChainBeaconRpcUrl := Some ''https://beacon.example'' \<rparr>) = Inr config
     \<and> blob_client (parent_chain config) \<noteq> None"
proof -
  let ?p = "exampleParams\<lparr> parentChainId := 1,
          parentChainBeaconRpcUrl := Some ''https://beacon.example'' \<rparr>"
  obtain config where h: "prepareNodeConfig exampleCollaborators ?p = Inr config"
    by (simp add: prepareNodeConfig_def exampleCollaborators_simps exampleParams_def truthy_def)
  from blob_client_layer [OF h] have "blob_client (parent_chain config) \<noteq> None"
    by (simp add: exampleCollaborators_simps)
  with h show ?thesis by blast
qed

text \<open>
  A layer 2 parent chain with the empty string as beacon endpoint: the derivation succeeds
  and the document has no \<^verbatim>\<open>blob-client\<close> sub-block, although an endpoint was supplied.
\<close>

theorem blob_client_absent_for_empty_url:
  "parentChainBeaconRpcUrl (exampleParams\<lparr> parentChainBeaconRpcUrl := Some '''' \<rparr>) = Some ''''
   \<and> map_sum id (blob_client \<circ> parent_chain)
       (prepareNodeConfig exampleCollaborators
          (exampleParams\<lparr> parentChainBeaconRpcUrl := Some '''' \<rparr>))
     = Inr None"
proof -
  let ?p = "exampleParams\<lparr> parentChainBeaconRpcUrl := Some '''' \<rparr>"
  obtain config where h: "prepareNodeConfig exampleCollaborators ?p = Inr config"
    by (simp add: prepareNodeConfig_def exampleCollaborators_simps exampleParams_def truthy_def)
  have "blob_client (parent_chain config) = None"
    by (simp add: blob_client_prepareNodeConfig [OF h])
  with h show ?thesis by simp
qed

text \<open>
  C3 (amended). On every input on which the derivation succeeds, the \<^verbatim>\<open>blob-client\<close>
  sub-block is present if and only if a \<^verbatim>\<open>parentChainBeaconRpcUrl\<close> other than the empty
  string was supplied, and when present its \<^verbatim>\<open>beacon-url\<close> is the supplied endpoint
  verbatim.
\<close>

theorem blob_client_iff_beacon_url:
  assumes "prepareNodeConfig env p = Inr config"
  shows "(blob_client (parent_chain config) \<noteq> None
            \<longleftrightarrow> (\<exists>u. parentChainBeaconRpcUrl p = Some u \<and> u \<noteq> ''''))
       \<and> (\<forall>b. blob_client (parent_chain config) = Some b \<longrightarrow>
             parentChainBeaconRpcUrl p = Some (beacon_url b))"
  by (auto simp add: blob_client_prepareNodeConfig [OF assms] split: option.splits if_splits)

theorem blob_client_iff_beacon_url_witness:
  "\<exists>config b. prepareNodeConfig exampleCollaborators
       (exampleParams\<lparr> parentChainId := 1,
          parentChainBeaconRpcUrl := Some ''https://beacon.example'' \<rparr>) = Inr config
     \<and> blob_client (parent_chain config) = Some b
     \<and> beacon_url b = ''https://beacon.example''"
proof -
  let ?p = "exampleParams\<lparr> parentChainId := 1,
          parentChainBeaconRpcUrl := Some ''https://beacon.example'' \<rparr>"
  obtain config where h: "prepareNodeConfig exampleCollaborators ?p = Inr config"
    by (simp add: prepareNodeConfig_def exampleCollaborators_simps exampleParams_def truthy_def)
  note t = blob_client_iff_beacon_url [OF h]
  from t obtain b where b: "blob_client (parent_chain config) = Some b"
    by auto
  with t have "beacon_url b = ''https://beacon.example''"
    by simp
  with h b show ?thesis by blast
qed

section \<open>The blob reader flag\<close>

text \<open>
  C4. On every input on which the derivation succeeds, the \<^verbatim>\<open>disable-blob-reader\<close> flag of
  the \<^verbatim>\<open>dangerous\<close> block is true exactly when the layer of the parent chain is not 1 and
  the parent chain is not an Arbitrum chain; in the three other combinations it is false.
\<close>

theorem disable_blob_reader_iff:
  assumes "prepareNodeConfig env p = Inr config"
  shows "disable_blob_reader (dangerous (node config)) \<longleftrightarrow>
           getParentChainLayer env (parentChainId p) \<noteq> 1
           \<and> \<not> parentChainIsArbitrum env (parentChainId p)"
proof -
  from assms obtain validated where
    c: "config = setFallbackS3 p (setDataAvailability p (setBlobClient p
                (initialConfig env p validated)))"
    by (rule prepareNodeConfig_Inr)
  have "dangerous (node config) = dangerous (node (initialConfig env p validated))"
    unfolding c
    by (simp only: setFallbackS3_node_fields setDataAvailability_node_fields setBlobClient_node)
  then show ?thesis
    by (simp add: initialConfig_def getDisableBlobReader_def)
qed

text \<open>Base as the parent chain sets the flag; Arbitrum Sepolia does not.\<close>

theorem disable_blob_reader_iff_witness:
  "(\<exists>config. prepareNodeConfig exampleCollaborators (exampleParams\<lparr> parentChainId := 8453 \<rparr>)
              = Inr config
      \<and> disable_blob_reader (dangerous (node config)))
   \<and> (\<exists>config. prepareNodeConfig exampleCollaborators exampleParams = Inr config
      \<and> \<not> disable_blob_reader (dangerous (node config)))"
proof -
  obtain config where
    h: "prepareNodeConfig exampleCollaborators (exampleParams\<lparr> parentChainId := 8453 \<rparr>)
          = Inr config"
    by (simp add: prepareNodeConfig_def exampleCollaborators_simps)
  from disable_blob_reader_iff [OF h] have 1: "disable_blob_reader (dangerous (node config))"
    by (simp add: exampleCollaborators_simps)
  obtain config' where
    h': "prepareNodeConfig exampleCollaborators exampleParams = Inr config'"
    by (simp add: prepareNodeConfig_def exampleCollaborators_simps exampleParams_def truthy_def)
  from disable_blob_reader_iff [OF h'] have "\<not> disable_blob_reader (dangerous (node config'))"
    by (simp add: exampleCollaborators_simps exampleParams_def)
  with h h' 1 show ?thesis by blast
qed

section \<open>The chain info block\<close>

text \<open>
  C5. On every input on which the derivation succeeds, \<^verbatim>\<open>info-json\<close> is the serialisation
  of an array with one entry, whose \<^verbatim>\<open>chain-id\<close> is the input's \<^verbatim>\<open>chainConfig.chainId\<close>
  and whose \<^verbatim>\<open>parent-chain-id\<close> is the input's \<^verbatim>\<open>parentChainId\<close>.
\<close>

theorem info_json_chain_ids:
  assumes "prepareNodeConfig env p = Inr config"
  shows "\<exists>info. info_json (chain_section config) = JSON_stringify env [info]
            \<and> chain_id info = chainId (chainConfig p)
            \<and> parent_chain_id info = parentChainId p"
proof -
  from assms obtain validated where
    c: "config = setFallbackS3 p (setDataAvailability p (setBlobClient p
                (initialConfig env p validated)))"
    by (rule prepareNodeConfig_Inr)
  have cs: "chain_section config = chain_section (initialConfig env p validated)"
    unfolding c
    by (simp only: setFallbackS3_chain_section setDataAvailability_chain_section
        setBlobClient_chain_section)
  show ?thesis
    unfolding cs initialConfig_def stringifyInfoJson_def
    by (simp, intro exI conjI, rule refl) simp_all
qed

text \<open>With the identity as serialiser the two ids can be read from the document.\<close>

theorem info_json_chain_ids_witness:
  "\<exists>config. prepareNodeConfig exampleCollaborators exampleParams = Inr config
     \<and> map chain_id (info_json (chain_section config)) = [97400766948]
     \<and> map parent_chain_id (info_json (chain_section config)) = [421614]"
proof -
  obtain config where
    h: "prepareNodeConfig exampleCollaborators exampleParams = Inr config"
    by (simp add: prepareNodeConfig_def exampleCollaborators_simps exampleParams_def truthy_def)
  from info_json_chain_ids [OF h] obtain info where
    "info_json (chain_section config) = [info]"
    "chain_id info = 97400766948" "parent_chain_id info = 421614"
    by (auto simp add: exampleCollaborators_simps exampleParams_def)
  with h show ?thesis by simp
qed

section \<open>The data availability committee sub-block\<close>

text \<open>
  C6. On every input on which the derivation succeeds, the \<^verbatim>\<open>data-availability\<close> sub-block
  is present if and only if the \<^verbatim>\<open>DataAvailabilityCommittee\<close> flag of the chain config is
  true. When present, the URL of its rest aggregator is \<^verbatim>\<open>dasServerUrl\<close> if supplied and
  \<^verbatim>\<open>http://localhost\<close> otherwise, followed by \<^verbatim>\<open>:9877\<close>, and \<^verbatim>\<open>assumed-honest\<close> of its
  rpc aggregator is 1.
\<close>

theorem data_availability_iff_committee:
  assumes "prepareNodeConfig env p = Inr config"
  shows "(data_availability (node config) \<noteq> None
            \<longleftrightarrow> DataAvailabilityCommittee (arbitrum (chainConfig p)))
       \<and> (\<forall>da. data_availability (node config) = Some da \<longrightarrow>
             urls (rest_aggregator da) =
               [(case dasServerUrl p of
                   Some explicit \<Rightarrow> explicit
                 | None \<Rightarrow> ''http://localhost'') @ '':9877'']
             \<and> assumed_honest (rpc_aggregator da) = 1)"
  by (auto simp add: data_availability_prepareNodeConfig [OF assms] nullish_def
      split: option.splits)

theorem data_availability_iff_committee_witness:
  "\<exists>config da.
     prepareNodeConfig exampleCollaborators
       (exampleParams\<lparr> chainConfig :=
          \<lparr> chainId = 97400766948, arbitrum = \<lparr> DataAvailabilityCommittee = True \<rparr> \<rparr> \<rparr>)
       = Inr config
     \<and> data_availability (node config) = Some da
     \<and> urls (rest_aggregator da) = [''http://localhost:9877'']
     \<and> assumed_honest (rpc_aggregator da) = 1"
proof -
  let ?p = "exampleParams\<lparr> chainConfig :=
          \<lparr> chainId = 97400766948, arbitrum = \<lparr> DataAvailabilityCommittee = True \<rparr> \<rparr> \<rparr>"
  obtain config where h: "prepareNodeConfig exampleCollaborators ?p = Inr config"
    by (simp add: prepareNodeConfig_def exampleCollaborators_simps exampleParams_def truthy_def)
  note t = data_availability_iff_committee [OF h]
  from t obtain da where da: "data_availability (node config) = Some da"
    by auto
  with t have "urls (rest_aggregator da) = [''http://localhost:9877'']"
    "assumed_honest (rpc_aggregator da) = 1"
    by (simp_all add: exampleParams_def)
  with h da show ?thesis by blast
qed

section \<open>The fallback storage sub-block\<close>

text \<open>
  C7. On every input on which the derivation succeeds, \<^verbatim>\<open>enable\<close> of the
  \<^verbatim>\<open>fallback-s3-service-config\<close> sub-block equals \<^verbatim>\<open>fallbackS3Config.enable\<close>. When that
  flag is true, access key, secret key, region, object prefix and bucket of the sub-block
  equal the fields of the input, and \<^verbatim>\<open>discard-after-timeout\<close> is false.
\<close>

theorem fallback_s3_copied:
  assumes "prepareNodeConfig env p = Inr config"
  shows "fallback_enable (fallback_s3_service_config (avail (node config)))
           = enable (fallbackS3Config p)
       \<and> (enable (fallbackS3Config p) \<longrightarrow>
            access_key (fallback_s3_service_config (avail (node config)))
              = accessKey (fallbackS3Config p)
          \<and> secret_key (fallback_s3_service_config (avail (node config)))
              = secretKey (fallbackS3Config p)
          \<and> fallback_region (fallback_s3_service_config (avail (node config)))
              = region (fallbackS3Config p)
          \<and> object_prefix (fallback_s3_service_config (avail (node config)))
              = objectPrefix (fallbackS3Config p)
          \<and> fallback_bucket (fallback_s3_service_config (avail (node config)))
              = bucket (fallbackS3Config p)
          \<and> discard_after_timeout (fallback_s3_service_config (avail (node config)))
              = Some False)"
  by (simp add: fallback_prepareNodeConfig [OF assms])

theorem fallback_s3_copied_witness:
  "\<exists>config.
     prepareNodeConfig exampleCollaborators
       (exampleParams\<lparr> fallbackS3Config :=
          \<lparr> enable = True, accessKey = Some ''AK'', bucket = Some ''bk'',
            objectPrefix = Some ''pre/'', region = Some ''eu-1'',
            secretKey = Some ''SK'' \<rparr> \<rparr>) = Inr config
     \<and> fallback_s3_service_config (avail (node config)) =
         \<lparr> fallback_enable = True, access_key = Some ''AK'', fallback_bucket = Some ''bk'',
           object_prefix = Some ''pre/'', fallback_region = Some ''eu-1'',
           secret_key = Some ''SK'', discard_after_timeout = Some False \<rparr>"
proof -
  let ?p = "exampleParams\<lparr> fallbackS3Config :=
          \<lparr> enable = True, accessKey = Some ''AK'', bucket = Some ''bk'',
            objectPrefix = Some ''pre/'', region = Some ''eu-1'',
            secretKey = Some ''SK'' \<rparr> \<rparr>"
  obtain config where h: "prepareNodeConfig exampleCollaborators ?p = Inr config"
    by (simp add: prepareNodeConfig_def exampleCollaborators_simps exampleParams_def truthy_def)
  from fallback_s3_copied [OF h] have
    "fallback_s3_service_config (avail (node config)) =
         \<lparr> fallback_enable = True, access_key = Some ''AK'', fallback_bucket = Some ''bk'',
           object_prefix = Some ''pre/'', fallback_region = Some ''eu-1'',
           secret_key = Some ''SK'', discard_after_timeout = Some False \<rparr>"
    by (cases "fallback_s3_service_config (avail (node config))") simp
  with h show ?thesis by blast
qed

text \<open>
  The only checks of the derivation are the beacon endpoint check and the validation of
  the parent chain id; neither reads \<^verbatim>\<open>fallbackS3Config\<close>. Whether the derivation fails,
  and with which error, is therefore the same for every fallback storage config.
\<close>

lemma prepareNodeConfig_error_fallback_independent:
  "prepareNodeConfig env (p\<lparr> fallbackS3Config := f \<rparr>) = Inl e
     \<longleftrightarrow> prepareNodeConfig env p = Inl e"
  by (simp add: prepareNodeConfig_def split: option.splits)

text \<open>
  C9. For every input whose \<^verbatim>\<open>fallbackS3Config\<close> has \<^verbatim>\<open>enable\<close> true and lacks one or more
  of the five storage fields, the derivation does not fail: the fields are not validated.
  Where the beacon endpoint check passes and \<^verbatim>\<open>validateParentChain\<close> accepts the parent
  chain id, which are the conditions of a successful derivation for any fallback config,
  the derivation returns a document whose fallback sub-block has \<^verbatim>\<open>enable\<close> true and in
  which each field is that of the input, an absent field staying absent.
\<close>

theorem fallback_s3_not_validated:
  assumes "enable (fallbackS3Config p)"
    and "accessKey (fallbackS3Config p) = None \<or> secretKey (fallbackS3Config p) = None
         \<or> region (fallbackS3Config p) = None \<or> objectPrefix (fallbackS3Config p) = None
         \<or> bucket (fallbackS3Config p) = None"
    and "validateParentChain env (parentChainId p) \<noteq> None"
    and "\<not> (getParentChainLayer env (parentChainId p) = 1
           \<and> (parentChainBeaconRpcUrl p = None \<or> parentChainBeaconRpcUrl p = Some ''''))"
  shows "\<exists>config. prepareNodeConfig env p = Inr config
           \<and> fallback_s3_service_config (avail (node config)) =
               \<lparr> fallback_enable = True,
                 access_key = accessKey (fallbackS3Config p),
                 fallback_bucket = bucket (fallbackS3Config p),
                 object_prefix = objectPrefix (fallbackS3Config p),
                 fallback_region = region (fallbackS3Config p),
                 secret_key = secretKey (fallbackS3Config p),
                 discard_after_timeout = Some False \<rparr>"
proof -
  from assms(3,4) obtain config where h: "prepareNodeConfig env p = Inr config"
    by (cases "parentChainBeaconRpcUrl p")
      (auto simp add: prepareNodeConfig_def truthy_def split: option.splits)
  from assms(1) show ?thesis
    using h by (simp add: fallback_prepareNodeConfig [OF h])
qed

theorem fallback_s3_not_validated_witness:
  "\<exists>config.
     prepareNodeConfig exampleCollaborators
       (exampleParams\<lparr> fallbackS3Config :=
          \<lparr> enable = True, accessKey = Some ''AK'', bucket = None,
            objectPrefix = None, region = Some ''eu-1'', secretKey = None \<rparr> \<rparr>) = Inr config
     \<and> fallback_s3_service_config (avail (node config)) =
         \<lparr> fallback_enable = True, access_key = Some ''AK'', fallback_bucket = None,
           object_prefix = None, fallback_region = Some ''eu-1'',
           secret_key = None, discard_after_timeout = Some False \<rparr>"
  using fallback_s3_not_validated [of "exampleParams\<lparr> fallbackS3Config :=
          \<lparr> enable = True, accessKey = Some ''AK'', bucket = None,
            objectPrefix = None, region = Some ''eu-1'', secretKey = None \<rparr> \<rparr>"
      exampleCollaborators]
  by (simp add: exampleCollaborators_simps exampleParams_def)

section \<open>The wallets\<close>

text \<open>
  C8. On every input on which the derivation succeeds, the private key in the parent chain
  wallet of the batch poster and of the staker is the input key without its first two
  characters when the input key starts with \<^verbatim>\<open>0x\<close>, and the input key unchanged otherwise.
\<close>

theorem wallet_private_keys_sanitized:
  assumes "prepareNodeConfig env p = Inr config"
  shows "(\<forall>rest. batchPosterPrivateKey p = ''0x'' @ rest \<longrightarrow>
            private_key (batch_poster_parent_chain_wallet (batch_poster (node config))) = rest)
       \<and> ((\<nexists>rest. batchPosterPrivateKey p = ''0x'' @ rest) \<longrightarrow>
            private_key (batch_poster_parent_chain_wallet (batch_poster (node config)))
              = batchPosterPrivateKey p)
       \<and> (\<forall>rest. validatorPrivateKey p = ''0x'' @ rest \<longrightarrow>
            private_key (staker_parent_chain_wallet (staker (node config))) = rest)
       \<and> ((\<nexists>rest. validatorPrivateKey p = ''0x'' @ rest) \<longrightarrow>
            private_key (staker_parent_chain_wallet (staker (node config)))
              = validatorPrivateKey p)"
  unfolding wallets_prepareNodeConfig [OF assms]
  using sanitizePrivateKey_prefixed sanitizePrivateKey_other
  by (intro conjI allI impI) simp_all

text \<open>The batch poster key of the example starts with \<^verbatim>\<open>0x\<close>, the validator key does not.\<close>

theorem wallet_private_keys_sanitized_witness:
  "\<exists>config. prepareNodeConfig exampleCollaborators exampleParams = Inr config
     \<and> private_key (batch_poster_parent_chain_wallet (batch_poster (node config))) = ''abc1''
     \<and> private_key (staker_parent_chain_wallet (staker (node config))) = ''def2''"
proof -
  obtain config where h: "prepareNodeConfig exampleCollaborators exampleParams = Inr config"
    by (simp add: prepareNodeConfig_def exampleCollaborators_simps exampleParams_def truthy_def)
  note t = wallet_private_keys_sanitized [OF h]
  have "batchPosterPrivateKey exampleParams = ''0x'' @ ''abc1''"
    by (simp add: exampleParams_def)
  with t have b: "private_key (batch_poster_parent_chain_wallet (batch_poster (node config)))
      = ''abc1''"
    by blast
  have "\<nexists>rest. validatorPrivateKey exampleParams = ''0x'' @ rest"
    by (simp add: exampleParams_def)
  with t have "private_key (staker_parent_chain_wallet (staker (node config)))
      = validatorPrivateKey exampleParams"
    by blast
  then have "private_key (staker_parent_chain_wallet (staker (node config))) = ''def2''"
    by (simp add: exampleParams_def)
  with h b show ?thesis by blast
qed

section \<open>The data availability server URL\<close>

text \<open>
  C10. Two inputs that differ only in \<^verbatim>\<open>dasServerUrl\<close> and whose chain config has the
  \<^verbatim>\<open>DataAvailabilityCommittee\<close> flag false give the same result.
\<close>

theorem dasServerUrl_irrelevant_without_committee:
  assumes "\<not> DataAvailabilityCommittee (arbitrum (chainConfig p))"
  shows "prepareNodeConfig env (p\<lparr> dasServerUrl := d \<rparr>) = prepareNodeConfig env p"
proof -
  have i: "initialConfig env (p\<lparr> dasServerUrl := d \<rparr>) v = initialConfig env p v" for v
    by (simp add: initialConfig_def)
  have b: "setBlobClient (p\<lparr> dasServerUrl := d \<rparr>) c = setBlobClient p c"
    for c :: "'a NodeConfig"
    by (simp add: setBlobClient_def)
  have a: "setDataAvailability (p\<lparr> dasServerUrl := d \<rparr>) c = setDataAvailability p c"
    for c :: "'a NodeConfig"
    using assms by (simp add: setDataAvailability_def Let_def)
  have f: "setFallbackS3 (p\<lparr> dasServerUrl := d \<rparr>) c = setFallbackS3 p c"
    for c :: "'a NodeConfig"
    by (simp add: setFallbackS3_def)
  show ?thesis
    by (simp add: prepareNodeConfig_def i b a f split: option.splits)
qed

theorem dasServerUrl_irrelevant_without_committee_witness:
  "\<not> DataAvailabilityCommittee (arbitrum (chainConfig exampleParams))
   \<and> (\<exists>config. prepareNodeConfig exampleCollaborators exampleParams = Inr config)
   \<and> prepareNodeConfig exampleCollaborators
       (exampleParams\<lparr> dasServerUrl := Some ''https://das.example'' \<rparr>)
     = prepareNodeConfig exampleCollaborators exampleParams"
proof -
  have h: "\<not> DataAvailabilityCommittee (arbitrum (chainConfig exampleParams))"
    by (simp add: exampleParams_def)
  have "\<exists>config. prepareNodeConfig exampleCollaborators exampleParams = Inr config"
    by (simp add: prepareNodeConfig_def exampleCollaborators_simps exampleParams_def truthy_def)
  with h dasServerUrl_irrelevant_without_committee [OF h] show ?thesis by simp
qed

end
